theory Spec2Isabelle
  imports Main "HOL-Library.AList"
begin

section \<open>The chess cog: data\<close>

text \<open>
  The cog \<^verbatim>\<open>ChessGame\<close> (\<^verbatim>\<open>chessgame.py\<close>) keeps, per channel, a dictionary from game
  names to \<^verbatim>\<open>Game\<close> objects. The class \<^verbatim>\<open>Game\<close> lives in \<^verbatim>\<open>game.py\<close>; the cog only
  uses its constructor, the method \<^verbatim>\<open>move_piece\<close> and a handful of attributes. These are
  the fields of the record \<open>engine\<close> below, so that everything proved about the commands
  holds for whatever \<^verbatim>\<open>Game\<close> does. The constructor and \<^verbatim>\<open>move_piece\<close> either return or
  raise \<^verbatim>\<open>ValueError\<close> (the one exception the cog catches around them): \<open>None\<close> is the
  raise. \<^verbatim>\<open>move_piece\<close> mutates the game in place; here it returns the mutated game.

  Members are identified by their id: \<^verbatim>\<open>discord.Member.__eq__\<close> compares ids.
\<close>

datatype color = White | Black

record 'g engine =
  g_new :: "nat \<Rightarrow> nat \<Rightarrow> string option \<Rightarrow> 'g option"
  g_move_piece :: "'g \<Rightarrow> string \<Rightarrow> (bool \<times> string \<times> 'g) option"
  g_order :: "'g \<Rightarrow> color \<times> nat \<times> nat"
  g_player_white_id :: "'g \<Rightarrow> nat"
  g_player_black_id :: "'g \<Rightarrow> nat"
  g_total_moves :: "'g \<Rightarrow> nat"
  g_can_claim_draw :: "'g \<Rightarrow> bool"
  g_can_claim_fifty_moves :: "'g \<Rightarrow> bool"
  g_can_claim_threefold_repetition :: "'g \<Rightarrow> bool"

text \<open>
  A Python dictionary keeps insertion order, so \<^verbatim>\<open>Games\<close> is an association list:
  \<^verbatim>\<open>games[k] = v\<close> is \<open>AList.update\<close> (in place for a known key, at the end for a new
  one), \<^verbatim>\<open>del games[k]\<close> is \<open>AList.delete\<close>, \<^verbatim>\<open>games[k]\<close> is \<open>map_of\<close> with \<open>None\<close>
  for \<^verbatim>\<open>KeyError\<close>.
\<close>

type_synonym 'g games = "(string \<times> 'g) list"

text \<open>
  The channel's config value holds the text \<^verbatim>\<open>jsonpickle.encode(games)\<close>, and
  \<^verbatim>\<open>_get_games\<close> hands the commands \<^verbatim>\<open>jsonpickle.decode\<close> of that text. The library is not
  part of the cog, and what it decodes need not be the dictionary that was encoded (it
  leaves out entries whose key is one of its own tags, and a text with such a key may
  decode to something that is no dictionary, or not at all). So the two functions are
  parameters, the record \<open>codec\<close>, over any type \<open>'t\<close> of texts, and nothing is assumed
  about them: \<open>j_decode\<close> gives the decoded value, or the exception it raises. A
  decoded value is \<^verbatim>\<open>None\<close>, a dictionary of games, or any other value, of which the
  commands see only whether it is true or false in a condition. Of the exceptions, the
  commands tell \<^verbatim>\<open>KeyError\<close> from the others, since that is the one they catch.

  The store is the config value: \<open>None\<close> until the first write (\<^verbatim>\<open>_get_games\<close> then
  returns \<^verbatim>\<open>None\<close>), afterwards the text last written, which is never the empty text.
\<close>

datatype exn = KeyError | TypeError | AttributeError | OtherError

datatype 'g pyvalue = Py_none | Py_dict "'g games" | Py_other bool

record ('g, 't) codec =
  j_encode :: "'g games \<Rightarrow> 't"
  j_decode :: "'t \<Rightarrow> exn + 'g pyvalue"

type_synonym 't store = "'t option"

definition get_games :: "('g, 't) codec \<Rightarrow> 't store \<Rightarrow> exn + 'g pyvalue" where
  "get_games codec store =
     (case store of None \<Rightarrow> Inr Py_none | Some games_json \<Rightarrow> j_decode codec games_json)"

definition set_games :: "('g, 't) codec \<Rightarrow> 'g games \<Rightarrow> 't store" where
  "set_games codec games = Some (j_encode codec games)"

fun truthy :: "'g pyvalue \<Rightarrow> bool" where
  "truthy Py_none = False"
| "truthy (Py_dict games) = (games \<noteq> [])"
| "truthy (Py_other b) = b"

text \<open>
  What a command does besides writing the store: the embed it sends, named after the
  field it adds, or the exception that ends it. \<open>Raised\<close> is an exception no handler
  of the command catches: one \<^verbatim>\<open>jsonpickle.decode\<close> raised,
  \<^verbatim>\<open>TypeError\<close> from subscripting \<^verbatim>\<open>None\<close> or another value that is no dictionary,
  \<^verbatim>\<open>AttributeError\<close> from \<^verbatim>\<open>.keys()\<close> of such a value and from \<^verbatim>\<open>.name\<close> or \<^verbatim>\<open>.id\<close> of a
  member \<^verbatim>\<open>get_member\<close> did not find.
\<close>

datatype reaction = React_yes | React_no | No_reaction

datatype outcome =
    Cannot_play_yourself
  | Invalid_game_type "string option"
  | New_game string nat
  | Game_does_not_exist
  | Invalid_move string
  | Moved bool string nat "string list"
  | Not_your_turn
  | Not_a_player
  | Awaiting_confirmation
  | Cancelled
  | Player_resigned nat nat
  | Draw string
  | Unable_to_claim string
  | Draw_accepted
  | Draw_declined
  | Timed_out
  | Raised exn

definition get_member :: "nat set \<Rightarrow> nat \<Rightarrow> nat option" where
  "get_member guild_members uid = (if uid \<in> guild_members then Some uid else None)"

definition fifty_moves :: string where
  "fifty_moves = ''Fifty moves''"

definition threefold_repetition :: string where
  "threefold_repetition = ''Threefold repetition''"

text \<open>
  The lookup every command but \<^verbatim>\<open>start_game\<close> starts with:
  \<^verbatim>\<open>
  try:
      games = await self._get_games(ctx.channel)
      game = games[game_name]
  except KeyError:
      ... "Game does not exist" ...
  \<close>
  It gives the dictionary and the game, or the way the command ends: only \<^verbatim>\<open>KeyError\<close> is
  caught, whether the subscript raised it or \<^verbatim>\<open>jsonpickle.decode\<close> inside \<^verbatim>\<open>_get_games\<close>.
\<close>

definition find_game ::
  "('g, 't) codec \<Rightarrow> 't store \<Rightarrow> string \<Rightarrow> outcome + ('g games \<times> 'g)" where
  "find_game codec store game_name =
     (case get_games codec store of
        Inl e \<Rightarrow> Inl (if e = KeyError then Game_does_not_exist else Raised e)
      | Inr Py_none \<Rightarrow> Inl (Raised TypeError)
      | Inr (Py_other _) \<Rightarrow> Inl (Raised TypeError)
      | Inr (Py_dict games) \<Rightarrow>
          (case map_of games game_name of
             None \<Rightarrow> Inl Game_does_not_exist
           | Some game \<Rightarrow> Inr (games, game)))"

section \<open>Starting a game\<close>

text \<open>\<^verbatim>\<open>f'{count}'\<close>: the decimal digits of a natural number.\<close>

definition digit_char :: "nat \<Rightarrow> char" where
  "digit_char d = ''0123456789'' ! d"

fun str_nat :: "nat \<Rightarrow> string" where
  "str_nat n = (if n < 10 then [digit_char n] else str_nat (n div 10) @ [digit_char (n mod 10)])"

declare str_nat.simps [simp del]

lemma digit_char_inj: "a < 10 \<Longrightarrow> b < 10 \<Longrightarrow> digit_char a = digit_char b \<Longrightarrow> a = b"
proof -
  assume a: "a < 10" and b: "b < 10" and e: "digit_char a = digit_char b"
  have d: "distinct ''0123456789''" by simp
  have "a < length ''0123456789''" "b < length ''0123456789''" using a b by simp_all
  with d e show "a = b" unfolding digit_char_def by (simp only: nth_eq_iff_index_eq)
qed

lemma str_nat_nonempty: "str_nat n \<noteq> []"
  by (subst str_nat.simps) simp

lemma str_nat_inj: "str_nat a = str_nat b \<Longrightarrow> a = b"
proof (induction a arbitrary: b rule: str_nat.induct)
  case (1 n)
  show ?case
  proof (cases "n < 10")
    case True
    then have sn: "str_nat n = [digit_char n]" by (subst str_nat.simps) simp
    show ?thesis
    proof (cases "b < 10")
      case True
      then have "str_nat b = [digit_char b]" by (subst str_nat.simps) simp
      with sn "1.prems" have "digit_char n = digit_char b" by simp
      with \<open>n < 10\<close> True show ?thesis by (rule digit_char_inj)
    next
      case False
      then have "str_nat b = str_nat (b div 10) @ [digit_char (b mod 10)]"
        by (subst str_nat.simps) simp
      with sn "1.prems" have "str_nat (b div 10) = []" by simp
      then show ?thesis by (simp add: str_nat_nonempty)
    qed
  next
    case False
    then have sn: "str_nat n = str_nat (n div 10) @ [digit_char (n mod 10)]"
      by (subst str_nat.simps) simp
    show ?thesis
    proof (cases "b < 10")
      case True
      then have "str_nat b = [digit_char b]" by (subst str_nat.simps) simp
      with sn "1.prems" have "str_nat (n div 10) = []" by simp
      then show ?thesis by (simp add: str_nat_nonempty)
    next
      case b10: False
      then have "str_nat b = str_nat (b div 10) @ [digit_char (b mod 10)]"
        by (subst str_nat.simps) simp
      with sn "1.prems" have e1: "str_nat (n div 10) = str_nat (b div 10)"
        and e2: "digit_char (n mod 10) = digit_char (b mod 10)" by simp_all
      from "1.IH" [OF False e1] have q: "n div 10 = b div 10" .
      have "n mod 10 = b mod 10" by (rule digit_char_inj [OF _ _ e2]) simp_all
      with q show ?thesis by (metis div_mult_mod_eq)
    qed
  qed
qed

text \<open>
  The loop of \<^verbatim>\<open>start_game\<close> that makes the name unique:
  \<^verbatim>\<open>
  count = 0
  suffix = ''
  while game_name + suffix in games.keys():
      count += 1
      suffix = f'{count}'
  \<close>
  with the loop's state \<open>(count, suffix)\<close> as arguments; the result is the suffix at
  the exit.
\<close>

function find_suffix :: "string \<Rightarrow> string list \<Rightarrow> nat \<Rightarrow> string \<Rightarrow> string" where
  "find_suffix game_name keys count suffix =
     (if game_name @ suffix \<in> set keys
      then find_suffix game_name keys (count + 1) (str_nat (count + 1))
      else suffix)"
  by pat_completeness auto

definition taken_after :: "string \<Rightarrow> string list \<Rightarrow> nat \<Rightarrow> nat set" where
  "taken_after game_name keys count = {k. count < k \<and> game_name @ str_nat k \<in> set keys}"

lemma finite_taken_after: "finite (taken_after game_name keys count)"
proof -
  have "inj (\<lambda>k. game_name @ str_nat k)"
    by (rule injI) (simp add: str_nat_inj)
  then have "finite ((\<lambda>k. game_name @ str_nat k) -` set keys)"
    by (simp add: finite_vimageI)
  moreover have "taken_after game_name keys count \<subseteq> (\<lambda>k. game_name @ str_nat k) -` set keys"
    by (auto simp: taken_after_def)
  ultimately show ?thesis by (rule rev_finite_subset)
qed

lemma taken_after_Suc:
  "taken_after game_name keys count =
     (if game_name @ str_nat (Suc count) \<in> set keys
      then insert (Suc count) (taken_after game_name keys (Suc count))
      else taken_after game_name keys (Suc count))"
proof (cases "game_name @ str_nat (Suc count) \<in> set keys")
  case True
  then show ?thesis by (auto simp: taken_after_def)
next
  case False
  have "count < k \<and> game_name @ str_nat k \<in> set keys \<longleftrightarrow>
        Suc count < k \<and> game_name @ str_nat k \<in> set keys" for k
    using False by (cases "k = Suc count") auto
  with False show ?thesis by (simp add: taken_after_def)
qed

termination find_suffix
proof (relation "measure (\<lambda>(game_name, keys, count, suffix).
         2 * card (taken_after game_name keys count) + (if game_name @ suffix \<in> set keys then 1 else 0))")
  show "wf (measure (\<lambda>(game_name, keys, count, suffix).
         2 * card (taken_after game_name keys count) + (if game_name @ suffix \<in> set keys then 1 else 0)))"
    by simp
next
  fix game_name :: string and keys :: "string list" and count :: nat and suffix :: string
  assume "game_name @ suffix \<in> set keys"
  moreover have "Suc count \<notin> taken_after game_name keys (Suc count)"
    by (simp add: taken_after_def)
  ultimately show "((game_name, keys, count + 1, str_nat (count + 1)), (game_name, keys, count, suffix))
     \<in> measure (\<lambda>(game_name, keys, count, suffix).
         2 * card (taken_after game_name keys count) + (if game_name @ suffix \<in> set keys then 1 else 0))"
    using taken_after_Suc [of game_name keys count] by (simp add: finite_taken_after)
qed

declare find_suffix.simps [simp del]

text \<open>The suffix the loop holds when its counter is \<open>count\<close>.\<close>

definition suffix_of :: "nat \<Rightarrow> string" where
  "suffix_of count = (if count = 0 then [] else str_nat count)"

text \<open>
  \<^verbatim>\<open>start_game\<close>, by \<open>author\<close> against \<open>other_player\<close>. \<^verbatim>\<open>if not games: games = {}\<close>
  replaces every false value (\<^verbatim>\<open>None\<close>, an empty dictionary) by an empty dictionary; a
  true value that is no dictionary has no \<^verbatim>\<open>keys()\<close>. \<^verbatim>\<open>if not game_name\<close> holds for
  \<^verbatim>\<open>None\<close> and for the empty string. The author plays black, the challenged member
  white, and the constructor is called as
  \<^verbatim>\<open>Game(player_black.id, player_white.id, game_type)\<close>. Between the read and the write
  the command awaits the embed colour only; what it writes is computed from what it
  read.
\<close>

definition name_or_default :: "string option \<Rightarrow> string" where
  "name_or_default game_name =
     (case game_name of None \<Rightarrow> ''game'' | Some n \<Rightarrow> if n = [] then ''game'' else n)"

definition start_game ::
  "('g, 't) codec \<Rightarrow> 'g engine \<Rightarrow> 't store \<Rightarrow> nat \<Rightarrow> nat \<Rightarrow> string option \<Rightarrow> string option
     \<Rightarrow> outcome \<times> 't store" where
  "start_game codec eng store author other_player game_name game_type =
     (case get_games codec store of
        Inl e \<Rightarrow> (Raised e, store)
      | Inr decoded \<Rightarrow>
         (let games = (if truthy decoded then decoded else Py_dict []);
              player_black = author;
              player_white = other_player
          in if player_black = player_white then (Cannot_play_yourself, store)
             else
               let name0 = name_or_default game_name
               in case games of
                    Py_dict gs \<Rightarrow>
                      (let name = name0 @ find_suffix name0 (map fst gs) 0 []
                       in case g_new eng player_black player_white game_type of
                            None \<Rightarrow> (Invalid_game_type game_type, store)
                          | Some game \<Rightarrow>
                              (New_game name player_white,
                               set_games codec (AList.update name game gs)))
                  | _ \<Rightarrow> (Raised AttributeError, store)))"

text \<open>
  The dictionary \<^verbatim>\<open>start_game\<close> works on, for a decoded value: the value itself when it
  is a dictionary, the empty dictionary when it is false, none when it is a true value
  that is no dictionary.
\<close>

definition dict_or_empty :: "'g pyvalue \<Rightarrow> 'g games option" where
  "dict_or_empty decoded =
     (if truthy decoded then (case decoded of Py_dict gs \<Rightarrow> Some gs | _ \<Rightarrow> None)
      else Some [])"

section \<open>Moving\<close>

text \<open>
  \<^verbatim>\<open>move_piece\<close>. The two members come from \<^verbatim>\<open>ctx.guild.get_member\<close>, which is \<^verbatim>\<open>None\<close> for
  somebody who left: then \<^verbatim>\<open>player_turn.id\<close> and \<^verbatim>\<open>player_black.name\<close>,
  \<^verbatim>\<open>player_white.name\<close> in the two refusals raise \<^verbatim>\<open>AttributeError\<close>. After a move the hints
  on claimable draws are read from the moved game, and the games are written back,
  without the game when \<^verbatim>\<open>is_game_over\<close>. Nothing is awaited between the read and the
  write.
\<close>

definition draw_hints :: "'g engine \<Rightarrow> 'g \<Rightarrow> string list" where
  "draw_hints eng game =
     (if g_can_claim_draw eng game
      then (if g_can_claim_fifty_moves eng game then [fifty_moves] else []) @
           (if g_can_claim_threefold_repetition eng game then [threefold_repetition] else [])
      else [])"

definition move_piece ::
  "('g, 't) codec \<Rightarrow> 'g engine \<Rightarrow> nat set \<Rightarrow> nat \<Rightarrow> 't store \<Rightarrow> string \<Rightarrow> string
     \<Rightarrow> outcome \<times> 't store" where
  "move_piece codec eng guild_members author store game_name mv =
     (case find_game codec store game_name of
        Inl failure \<Rightarrow> (failure, store)
      | Inr (games, game) \<Rightarrow>
         (let player_white = get_member guild_members (g_player_white_id eng game);
              player_black = get_member guild_members (g_player_black_id eng game)
          in case g_order eng game of
               (turn_color, turn_id, next_id) \<Rightarrow>
                 (let player_turn =
                        (if turn_id = g_player_white_id eng game then player_white
                         else player_black);
                      player_next =
                        (if turn_id = g_player_white_id eng game then player_black
                         else player_white)
                  in if player_turn = Some author then
                       (case g_move_piece eng game mv of
                          None \<Rightarrow> (Invalid_move mv, store)
                        | Some (is_game_over, value_move, game') \<Rightarrow>
                            (Moved is_game_over value_move (g_total_moves eng game')
                               (draw_hints eng game'),
                             set_games codec
                               (if is_game_over then AList.delete game_name games
                                else AList.update game_name game' games)))
                     else if player_next = Some author then
                       (case player_turn of
                          None \<Rightarrow> (Raised AttributeError, store)
                        | Some _ \<Rightarrow> (Not_your_turn, store))
                     else
                       (if player_black = None \<or> player_white = None
                        then (Raised AttributeError, store)
                        else (Not_a_player, store)))))"

section \<open>Resigning and draws\<close>

text \<open>
  \<^verbatim>\<open>resign\<close>. Without \<^verbatim>\<open>confirm\<close> the command asks and waits for the author's reaction;
  \<^verbatim>\<open>wait_for\<close> is called without a timeout, so with no reaction the command never goes
  on (\<open>Awaiting_confirmation\<close>). Other commands run during the wait: \<open>store_now\<close> is the
  store as they have left it when the reaction arrives, while \<open>store\<close> is the one the
  command read at its start. The command does not read again: what it writes in the end
  is the dictionary it read at its start, without the game. The announcement names both
  members, so it raises \<^verbatim>\<open>AttributeError\<close> when the other one has left the guild; the game
  is deleted after the announcement is built.
\<close>

definition resign ::
  "('g, 't) codec \<Rightarrow> 'g engine \<Rightarrow> nat set \<Rightarrow> nat \<Rightarrow> 't store \<Rightarrow> string \<Rightarrow> bool \<Rightarrow> reaction
     \<Rightarrow> 't store \<Rightarrow> outcome \<times> 't store" where
  "resign codec eng guild_members author store game_name confirm answer store_now =
     (case find_game codec store game_name of
        Inl failure \<Rightarrow> (failure, store)
      | Inr (games, game) \<Rightarrow>
         (let player_white = get_member guild_members (g_player_white_id eng game);
              player_black = get_member guild_members (g_player_black_id eng game);
              current = (if confirm then store else store_now)
          in if Some author \<noteq> player_white \<and> Some author \<noteq> player_black then
               (if player_black = None \<or> player_white = None
                then (Raised AttributeError, store)
                else (Not_a_player, store))
             else if \<not> confirm \<and> answer = No_reaction then (Awaiting_confirmation, current)
             else if \<not> confirm \<and> answer = React_no then (Cancelled, current)
             else if Some author = player_white then
               (case player_black of
                  None \<Rightarrow> (Raised AttributeError, current)
                | Some _ \<Rightarrow>
                    (Player_resigned (g_player_white_id eng game) (g_player_black_id eng game),
                     set_games codec (AList.delete game_name games)))
             else
               (case player_white of
                  None \<Rightarrow> (Raised AttributeError, current)
                | Some _ \<Rightarrow>
                    (Player_resigned (g_player_black_id eng game) (g_player_white_id eng game),
                     set_games codec (AList.delete game_name games)))))"

text \<open>
  \<^verbatim>\<open>claim_draw\<close>: anybody may claim; the two reasons are compared as strings. Nothing is
  awaited between the read and the write.
\<close>

definition claim_draw ::
  "('g, 't) codec \<Rightarrow> 'g engine \<Rightarrow> 't store \<Rightarrow> string \<Rightarrow> string \<Rightarrow> outcome \<times> 't store" where
  "claim_draw codec eng store game_name claim_type =
     (case find_game codec store game_name of
        Inl failure \<Rightarrow> (failure, store)
      | Inr (games, game) \<Rightarrow>
         (if fifty_moves = claim_type \<and> g_can_claim_fifty_moves eng game then
            (Draw claim_type, set_games codec (AList.delete game_name games))
          else if threefold_repetition = claim_type
                  \<and> g_can_claim_threefold_repetition eng game then
            (Draw claim_type, set_games codec (AList.delete game_name games))
          else (Unable_to_claim claim_type, store)))"

text \<open>
  \<^verbatim>\<open>by_agreement\<close>: one of the two players offers, and the reaction awaited (30 seconds)
  is the one of \<^verbatim>\<open>get_member(game.player_white_id)\<close>. As in \<^verbatim>\<open>resign\<close>, \<open>store_now\<close> is the
  store when the wait is over, and an accepted draw writes the dictionary read before
  the wait, without the game.
\<close>

definition by_agreement ::
  "('g, 't) codec \<Rightarrow> 'g engine \<Rightarrow> nat \<Rightarrow> 't store \<Rightarrow> string \<Rightarrow> reaction \<Rightarrow> 't store
     \<Rightarrow> outcome \<times> 't store" where
  "by_agreement codec eng author store game_name answer store_now =
     (case find_game codec store game_name of
        Inl failure \<Rightarrow> (failure, store)
      | Inr (games, game) \<Rightarrow>
         (if author \<noteq> g_player_black_id eng game \<and> author \<noteq> g_player_white_id eng game
          then (Not_a_player, store)
          else (case answer of
                  React_yes \<Rightarrow> (Draw_accepted, set_games codec (AList.delete game_name games))
                | React_no \<Rightarrow> (Draw_declined, store_now)
                | No_reaction \<Rightarrow> (Timed_out, store_now))))"

text \<open>A call of \<^verbatim>\<open>move_piece\<close> has succeeded when it announces the move.\<close>

definition is_moved :: "outcome \<Rightarrow> bool" where
  "is_moved out = (case out of Moved _ _ _ _ \<Rightarrow> True | _ \<Rightarrow> False)"

text \<open>
  The ways a game ends in the cog: a move after which \<^verbatim>\<open>is_game_over\<close> holds (checkmate,
  stalemate and whatever else \<^verbatim>\<open>Game.move_piece\<close> reports), a resignation, a claimed draw
  and a draw by agreement. \<open>ends_game codec eng guild_members store game_name store'\<close>:
  one of these commands, having read \<open>store\<close>, has ended the game \<open>game_name\<close> and
  written \<open>store'\<close>.
\<close>

inductive ends_game ::
  "('g, 't) codec \<Rightarrow> 'g engine \<Rightarrow> nat set \<Rightarrow> 't store \<Rightarrow> string \<Rightarrow> 't store \<Rightarrow> bool"
  for codec eng guild_members store game_name where
    by_move:
      "move_piece codec eng guild_members author store game_name mv
         = (Moved True value_move n hints, store')
       \<Longrightarrow> ends_game codec eng guild_members store game_name store'"
  | by_resignation:
      "resign codec eng guild_members author store game_name confirm answer store_now
         = (Player_resigned loser winner, store')
       \<Longrightarrow> ends_game codec eng guild_members store game_name store'"
  | by_claimed_draw:
      "claim_draw codec eng store game_name claim_type = (Draw claim_type, store')
       \<Longrightarrow> ends_game codec eng guild_members store game_name store'"
  | by_agreed_draw:
      "by_agreement codec eng author store game_name answer store_now = (Draw_accepted, store')
       \<Longrightarrow> ends_game codec eng guild_members store game_name store'"

section \<open>The game session, from the specification\<close>

text \<open>
  Modelled from the spec: the class \<^verbatim>\<open>Game\<close> of \<^verbatim>\<open>game.py\<close>, which the cog imports and
  which is not among the sources. The session is the one of the specification's data
  model and state machine. Its Board Model and Notation Parser are parameters (the
  record \<open>rules\<close>): \<open>r_start\<close> is the starting placement of a variant (\<open>None\<close> for an
  unrecognized tag), \<open>r_parse\<close> resolves a notation against a position, \<open>r_place\<close> gives
  the placement, castling rights and en-passant target after a move, and the four
  predicates are the derived predicates of the Board Model.
\<close>

datatype error =
    MalformedNotation
  | IllegalMove
  | AmbiguousMove
  | DrawNotClaimable
  | GameOver
  | UnknownVariant
  | EncodingCorrupt

datatype piece_kind = Pawn | Knight | Bishop | Rook | Queen | King

datatype special_move = Castle_kingside | Castle_queenside | En_passant

record move =
  origin :: nat
  destination :: nat
  piece :: piece_kind
  captured :: "piece_kind option"
  promotion :: "piece_kind option"
  special :: "special_move option"

record 'b position =
  placement :: 'b
  side_to_move :: color
  halfmove_clock :: nat
  fullmove_number :: nat

record 'b rules =
  r_start :: "string option \<Rightarrow> 'b option"
  r_parse :: "'b position \<Rightarrow> string \<Rightarrow> error + move"
  r_place :: "'b \<Rightarrow> move \<Rightarrow> 'b"
  r_is_check :: "'b position \<Rightarrow> bool"
  r_is_checkmate :: "'b position \<Rightarrow> bool"
  r_is_stalemate :: "'b position \<Rightarrow> bool"
  r_has_insufficient_material :: "'b position \<Rightarrow> bool"

datatype status =
    InProgress
  | Checkmate color
  | Stalemate
  | DrawByInsufficientMaterial
  | DrawClaimed string
  | Resigned color

record 'b game =
  player_white_id :: nat
  player_black_id :: nat
  variant :: "string option"
  position :: "'b position"
  history :: "(move \<times> 'b position) list"
  total_moves :: nat
  status :: status

fun other_color :: "color \<Rightarrow> color" where
  "other_color White = Black"
| "other_color Black = White"

text \<open>
  Modelled from the spec: \<^verbatim>\<open>apply(position, move)\<close> of the Board Model. The half-move
  clock is reset on a capture or a pawn move and incremented otherwise, the full-move
  number is incremented after black's move, and the side to move changes.
\<close>

definition resets_clock :: "move \<Rightarrow> bool" where
  "resets_clock m = (captured m \<noteq> None \<or> piece m = Pawn)"

definition apply_move :: "'b rules \<Rightarrow> 'b position \<Rightarrow> move \<Rightarrow> 'b position" where
  "apply_move rules pos m =
     \<lparr>placement = r_place rules (placement pos) m,
      side_to_move = other_color (side_to_move pos),
      halfmove_clock = (if resets_clock m then 0 else halfmove_clock pos + 1),
      fullmove_number =
        (if side_to_move pos = Black then fullmove_number pos + 1 else fullmove_number pos)\<rparr>"

text \<open>
  Modelled from the spec: the construction of a session. The cog calls it as
  \<^verbatim>\<open>Game(player_black.id, player_white.id, game_type)\<close>, so black's identifier comes
  first. An unrecognized variant tag is rejected; the game starts in progress with white
  to move.
\<close>

definition new_game :: "'b rules \<Rightarrow> nat \<Rightarrow> nat \<Rightarrow> string option \<Rightarrow> error + 'b game" where
  "new_game rules black_id white_id tag =
     (case r_start rules tag of
        None \<Rightarrow> Inl UnknownVariant
      | Some b \<Rightarrow>
          Inr \<lparr>player_white_id = white_id, player_black_id = black_id, variant = tag,
               position = \<lparr>placement = b, side_to_move = White, halfmove_clock = 0,
                            fullmove_number = 1\<rparr>,
               history = [], total_moves = 0, status = InProgress\<rparr>)"

text \<open>
  Modelled from the spec: the query \<^verbatim>\<open>order\<close> (color to move, acting player, next player)
  and the Draw Claim Evaluator. Two positions are the same for repetition when placement
  (with castling rights and en-passant target) and side to move agree; the earlier
  snapshots are those of the history before the current one.
\<close>

definition order :: "'b game \<Rightarrow> color \<times> nat \<times> nat" where
  "order g =
     (case side_to_move (position g) of
        White \<Rightarrow> (White, player_white_id g, player_black_id g)
      | Black \<Rightarrow> (Black, player_black_id g, player_white_id g))"

definition can_claim_fifty_moves :: "'b game \<Rightarrow> bool" where
  "can_claim_fifty_moves g = (100 \<le> halfmove_clock (position g))"

definition same_position :: "'b position \<Rightarrow> 'b position \<Rightarrow> bool" where
  "same_position p q = (placement p = placement q \<and> side_to_move p = side_to_move q)"

definition can_claim_threefold_repetition :: "'b game \<Rightarrow> bool" where
  "can_claim_threefold_repetition g =
     (2 \<le> length (filter (same_position (position g)) (butlast (map snd (history g)))))"

definition can_claim_draw :: "'b game \<Rightarrow> bool" where
  "can_claim_draw g = (can_claim_fifty_moves g \<or> can_claim_threefold_repetition g)"

text \<open>
  Modelled from the spec: the transition \<^verbatim>\<open>move_piece(text)\<close> of the session. It is valid
  from \<open>InProgress\<close> only; the parser's failure is the session's failure and leaves the
  session as it was; on success the move and the resulting position are appended to the
  history, the turn advances, and checkmate, stalemate and insufficient material are
  evaluated on the new position. The result is whether the game has ended, the summary
  of the move (here the notation played) and the session after the move.
\<close>

definition game_move_piece :: "'b rules \<Rightarrow> 'b game \<Rightarrow> string \<Rightarrow> error + (bool \<times> string \<times> 'b game)" where
  "game_move_piece rules g text =
     (if status g \<noteq> InProgress then Inl GameOver
      else case r_parse rules (position g) text of
             Inl e \<Rightarrow> Inl e
           | Inr m \<Rightarrow>
              (let pos = apply_move rules (position g) m;
                   st = (if r_is_checkmate rules pos then Checkmate (side_to_move (position g))
                         else if r_is_stalemate rules pos then Stalemate
                         else if r_has_insufficient_material rules pos
                           then DrawByInsufficientMaterial
                         else InProgress)
               in Inr (st \<noteq> InProgress, text,
                       g\<lparr>position := pos, history := history g @ [(m, pos)],
                         total_moves := total_moves g + 1, status := st\<rparr>)))"

text \<open>A run of moves from a session; it stops at the first failure.\<close>

fun play :: "'b rules \<Rightarrow> 'b game \<Rightarrow> string list \<Rightarrow> error + 'b game" where
  "play rules g [] = Inr g"
| "play rules g (t # ts) =
     (case game_move_piece rules g t of
        Inl e \<Rightarrow> Inl e
      | Inr (_, _, g') \<Rightarrow> play rules g' ts)"

text \<open>
  The session as the cog sees it: every failure of the constructor and of
  \<^verbatim>\<open>move_piece\<close> is the \<^verbatim>\<open>ValueError\<close> the cog catches.
\<close>

definition spec_engine :: "'b rules \<Rightarrow> 'b game engine" where
  "spec_engine rules =
     \<lparr>g_new = (\<lambda>black_id white_id tag.
                 case new_game rules black_id white_id tag of Inl _ \<Rightarrow> None | Inr g \<Rightarrow> Some g),
      g_move_piece = (\<lambda>g text.
                 case game_move_piece rules g text of Inl _ \<Rightarrow> None | Inr r \<Rightarrow> Some r),
      g_order = order,
      g_player_white_id = player_white_id,
      g_player_black_id = player_black_id,
      g_total_moves = total_moves,
      g_can_claim_draw = can_claim_draw,
      g_can_claim_fifty_moves = can_claim_fifty_moves,
      g_can_claim_threefold_repetition = can_claim_threefold_repetition\<rparr>"

text \<open>
  A small Board Model to run the definitions on: the placement is the list of
  (origin, destination) pairs played, \<^verbatim>\<open>e4\<close> is a pawn move, \<^verbatim>\<open>Nf3\<close> and \<^verbatim>\<open>Ng1\<close> are
  knight moves, \<^verbatim>\<open>Qxf7#\<close> is a capture that mates, the empty notation is malformed and
  every other notation is illegal; the variant is \<^verbatim>\<open>None\<close> or \<^verbatim>\<open>Standard\<close>.
\<close>

definition sample_rules :: "(nat \<times> nat) list rules" where
  "sample_rules =
     \<lparr>r_start = (\<lambda>tag. if tag = None \<or> tag = Some ''Standard'' then Some [] else None),
      r_parse = (\<lambda>pos text.
         if text = ''e4'' then
           Inr \<lparr>origin = 12, destination = 28, piece = Pawn, captured = None,
                promotion = None, special = None\<rparr>
         else if text = ''Nf3'' then
           Inr \<lparr>origin = 6, destination = 21, piece = Knight, captured = None,
                promotion = None, special = None\<rparr>
         else if text = ''Ng1'' then
           Inr \<lparr>origin = 21, destination = 6, piece = Knight, captured = None,
                promotion = None, special = None\<rparr>
         else if text = ''Qxf7#'' then
           Inr \<lparr>origin = 39, destination = 53, piece = Queen, captured = Some Pawn,
                promotion = None, special = None\<rparr>
         else if text = [] then Inl MalformedNotation
         else Inl IllegalMove),
      r_place = (\<lambda>b m. b @ [(origin m, destination m)]),
      r_is_check = (\<lambda>pos. placement pos \<noteq> [] \<and> last (placement pos) = (39, 53)),
      r_is_checkmate = (\<lambda>pos. placement pos \<noteq> [] \<and> last (placement pos) = (39, 53)),
      r_is_stalemate = (\<lambda>pos. False),
      r_has_insufficient_material = (\<lambda>pos. False)\<rparr>"

text \<open>
  The session of a game just started by member 1 (black) against member 2 (white) under
  \<open>sample_rules\<close>.
\<close>

definition sample_game :: "(nat \<times> nat) list game" where
  "sample_game =
     \<lparr>player_white_id = 2, player_black_id = 1, variant = None,
      position = \<lparr>placement = [], side_to_move = White, halfmove_clock = 0,
                   fullmove_number = 1\<rparr>,
      history = [], total_moves = 0, status = InProgress\<rparr>"

text \<open>
  A serialiser to run the commands on: the text is the dictionary itself, and decoding
  gives it back.
\<close>

definition plain_codec :: "('g, 'g games) codec" where
  "plain_codec = \<lparr>j_encode = (\<lambda>games. games), j_decode = (\<lambda>text. Inr (Py_dict text))\<rparr>"

text \<open>
  A serialiser that leaves out the entry under the key \<^verbatim>\<open>py/object\<close>, as jsonpickle
  leaves out the entries of a dictionary whose key is one of its own tags.
\<close>

definition tag_dropping_codec :: "('g, 'g games) codec" where
  "tag_dropping_codec =
     \<lparr>j_encode = filter (\<lambda>(k, g). k \<noteq> ''py/object''),
      j_decode = (\<lambda>text. Inr (Py_dict text))\<rparr>"

lemmas sample_defs = spec_engine_def sample_rules_def sample_game_def new_game_def
  game_move_piece_def apply_move_def resets_clock_def order_def can_claim_draw_def
  can_claim_fifty_moves_def can_claim_threefold_repetition_def same_position_def
  plain_codec_def get_games_def set_games_def find_game_def get_member_def draw_hints_def
  fifty_moves_def threefold_repetition_def Let_def

section \<open>Properties of starting a game\<close>

lemma find_game_Inr:
  "find_game codec store game_name = Inr (games, game) \<longleftrightarrow>
     get_games codec store = Inr (Py_dict games) \<and> map_of games game_name = Some game"
  by (auto simp: find_game_def split: sum.splits option.splits pyvalue.splits)

lemma find_game_found:
  "get_games codec store = Inr (Py_dict games) \<Longrightarrow> map_of games game_name = Some game
     \<Longrightarrow> find_game codec store game_name = Inr (games, game)"
  by (simp add: find_game_Inr)

lemma find_game_absent:
  "get_games codec store = Inr (Py_dict games) \<Longrightarrow> game_name \<notin> fst ` set games
     \<Longrightarrow> find_game codec store game_name = Inl Game_does_not_exist"
  by (simp add: find_game_def map_of_eq_None_iff [THEN iffD2])

lemma find_game_Inl:
  "find_game codec store game_name = Inl failure \<Longrightarrow>
     (\<exists>e. failure = Raised e) \<or> failure = Game_does_not_exist"
  by (auto simp: find_game_def split: sum.splits option.splits pyvalue.splits if_splits)

lemma find_suffix_least:
  "\<exists>k\<ge>count. find_suffix game_name keys count (suffix_of count) = suffix_of k
      \<and> game_name @ suffix_of k \<notin> set keys
      \<and> (\<forall>j. count \<le> j \<and> j < k \<longrightarrow> game_name @ suffix_of j \<in> set keys)"
proof -
  have "suffix = suffix_of count \<longrightarrow>
        (\<exists>k\<ge>count. find_suffix game_name keys count suffix = suffix_of k
           \<and> game_name @ suffix_of k \<notin> set keys
           \<and> (\<forall>j. count \<le> j \<and> j < k \<longrightarrow> game_name @ suffix_of j \<in> set keys))" for suffix
  proof (induction game_name keys count suffix rule: find_suffix.induct)
    case (1 game_name keys count suffix)
    show ?case
    proof
      assume s: "suffix = suffix_of count"
      show "\<exists>k\<ge>count. find_suffix game_name keys count suffix = suffix_of k
           \<and> game_name @ suffix_of k \<notin> set keys
           \<and> (\<forall>j. count \<le> j \<and> j < k \<longrightarrow> game_name @ suffix_of j \<in> set keys)"
      proof (cases "game_name @ suffix \<in> set keys")
        case False
        then have "find_suffix game_name keys count suffix = suffix_of count"
          using s by (subst find_suffix.simps) simp
        with False s show ?thesis by auto
      next
        case True
        have n: "str_nat (count + 1) = suffix_of (count + 1)" by (simp add: suffix_of_def)
        from "1.IH" [OF True] n obtain k where k: "count + 1 \<le> k"
          and f: "find_suffix game_name keys (count + 1) (str_nat (count + 1)) = suffix_of k"
          and fresh: "game_name @ suffix_of k \<notin> set keys"
          and below: "\<forall>j. count + 1 \<le> j \<and> j < k \<longrightarrow> game_name @ suffix_of j \<in> set keys"
          by auto
        have "find_suffix game_name keys count suffix = suffix_of k"
          using True f by (subst find_suffix.simps) simp
        moreover have "\<forall>j. count \<le> j \<and> j < k \<longrightarrow> game_name @ suffix_of j \<in> set keys"
        proof (intro allI impI)
          fix j assume j: "count \<le> j \<and> j < k"
          show "game_name @ suffix_of j \<in> set keys"
          proof (cases "j = count")
            case True
            with \<open>game_name @ suffix \<in> set keys\<close> s show ?thesis by simp
          next
            case False
            with j have "count + 1 \<le> j \<and> j < k" by simp
            with below show ?thesis by blast
          qed
        qed
        ultimately show ?thesis using k fresh by (intro exI [of _ k]) simp
      qed
    qed
  qed
  then show ?thesis by simp
qed

lemma update_fresh: "k \<notin> fst ` set al \<Longrightarrow> AList.update k v al = al @ [(k, v)]"
  by (induction al) auto

lemma start_game_on_dict:
  assumes "get_games codec store = Inr decoded" and "dict_or_empty decoded = Some games"
    and "author \<noteq> other_player"
  shows "start_game codec eng store author other_player game_name game_type =
     (case g_new eng author other_player game_type of
        None \<Rightarrow> (Invalid_game_type game_type, store)
      | Some game \<Rightarrow>
          (New_game (name_or_default game_name
                      @ find_suffix (name_or_default game_name) (map fst games) 0 [])
             other_player,
           set_games codec
             (AList.update
                (name_or_default game_name
                   @ find_suffix (name_or_default game_name) (map fst games) 0 [])
                game games)))"
  using assms
  by (cases decoded)
    (auto simp: start_game_def dict_or_empty_def Let_def split: if_splits option.splits)

text \<open>
  C10: a member who challenges themself gets no game: the command answers that one
  cannot play chess with oneself and the channel's store is what it was. Only a stored
  text that \<^verbatim>\<open>jsonpickle.decode\<close> raises on ends the command earlier, in \<^verbatim>\<open>_get_games\<close>,
  with the store untouched as well.
\<close>

theorem start_game_self_challenge:
  "start_game codec eng store player player game_name game_type =
     (case get_games codec store of
        Inl e \<Rightarrow> Raised e
      | Inr decoded \<Rightarrow> Cannot_play_yourself,
      store)"
  by (simp add: start_game_def Let_def split: sum.splits)

theorem start_game_self_challenge_witness:
  "start_game plain_codec (spec_engine sample_rules) (Some [(''game'', sample_game)]) 7 7
       (Some ''rematch'') None
     = (Cannot_play_yourself, Some [(''game'', sample_game)])"
  using start_game_self_challenge [of plain_codec "spec_engine sample_rules"
      "Some [(''game'', sample_game)]" 7 "Some ''rematch''" None]
  by (simp add: get_games_def plain_codec_def)

text \<open>
  C6: for two distinct players and a variant tag the Board Model does not know, the
  construction of the session fails with \<open>UnknownVariant\<close>, and \<^verbatim>\<open>start_game\<close> reports the
  invalid game type, creates no game and leaves the channel's store unchanged. When the
  stored games cannot be read as a dictionary the command has ended before the
  constructor is reached, with an exception and the store unchanged too.
\<close>

theorem start_game_unknown_variant:
  assumes "author \<noteq> other_player" and "r_start rules game_type = None"
  shows "new_game rules author other_player game_type = Inl UnknownVariant
       \<and> start_game codec (spec_engine rules) store author other_player game_name game_type =
           (case get_games codec store of
              Inl e \<Rightarrow> Raised e
            | Inr decoded \<Rightarrow>
                (case dict_or_empty decoded of
                   None \<Rightarrow> Raised AttributeError
                 | Some games \<Rightarrow> Invalid_game_type game_type),
            store)"
proof -
  have n: "new_game rules author other_player game_type = Inl UnknownVariant"
    using assms(2) by (simp add: new_game_def)
  then have g: "g_new (spec_engine rules) author other_player game_type = None"
    by (simp add: spec_engine_def)
  show ?thesis
  proof (cases "get_games codec store")
    case (Inl e)
    with n show ?thesis by (simp add: start_game_def)
  next
    case (Inr decoded)
    show ?thesis
    proof (cases "dict_or_empty decoded")
      case None
      with Inr n assms(1) show ?thesis
        by (cases decoded)
          (auto simp: start_game_def dict_or_empty_def Let_def split: if_splits)
    next
      case games: (Some games)
      from start_game_on_dict [OF Inr games assms(1)] g n Inr games show ?thesis by simp
    qed
  qed
qed

theorem start_game_unknown_variant_witness:
  "(1::nat) \<noteq> 2 \<and> r_start sample_rules (Some ''Atomic'') = None
   \<and> new_game sample_rules 1 2 (Some ''Atomic'') = Inl UnknownVariant
   \<and> start_game plain_codec (spec_engine sample_rules) (Some [(''game'', sample_game)]) 1 2
        (Some ''match'') (Some ''Atomic'')
       = (Invalid_game_type (Some ''Atomic''), Some [(''game'', sample_game)])
   \<and> start_game plain_codec (spec_engine sample_rules) None 1 2 None (Some ''Atomic'')
       = (Invalid_game_type (Some ''Atomic''), None)"
  using start_game_unknown_variant [of 1 2 sample_rules "Some ''Atomic''" plain_codec
      "Some [(''game'', sample_game)]" "Some ''match''"]
    start_game_unknown_variant [of 1 2 sample_rules "Some ''Atomic''" plain_codec
      None None]
  by (simp add: sample_rules_def get_games_def plain_codec_def dict_or_empty_def)

text \<open>
  The naming loop terminates on every dictionary (\<open>find_suffix\<close> is a total function).
  When the players differ and the constructor returns a game, the dictionary handed to
  \<^verbatim>\<open>jsonpickle.encode\<close> is the one that was read with the game added at its end, under
  the requested (or default) name followed by the suffix of the first counter \<open>k\<close> whose
  name is free: the name was not a key, and the names of all smaller counters were.
\<close>

lemma start_game_fresh_name:
  assumes "get_games codec store = Inr decoded" and "dict_or_empty decoded = Some games"
    and "author \<noteq> other_player"
    and "g_new eng author other_player game_type = Some game"
  shows "\<exists>k. start_game codec eng store author other_player game_name game_type
               = (New_game (name_or_default game_name @ suffix_of k) other_player,
                  set_games codec (games @ [(name_or_default game_name @ suffix_of k, game)]))
            \<and> name_or_default game_name @ suffix_of k \<notin> fst ` set games
            \<and> (\<forall>j<k. name_or_default game_name @ suffix_of j \<in> fst ` set games)"
proof -
  let ?base = "name_or_default game_name"
  from find_suffix_least [of 0 ?base "map fst games"]
  obtain k where f: "find_suffix ?base (map fst games) 0 [] = suffix_of k"
    and fresh: "?base @ suffix_of k \<notin> fst ` set games"
    and below: "\<forall>j<k. ?base @ suffix_of j \<in> fst ` set games"
    by (auto simp: suffix_of_def)
  have "start_game codec eng store author other_player game_name game_type
          = (New_game (?base @ suffix_of k) other_player,
             set_games codec (games @ [(?base @ suffix_of k, game)]))"
    using start_game_on_dict [OF assms(1,2,3)] assms(4) f update_fresh [OF fresh] by simp
  with fresh below show ?thesis by blast
qed

text \<open>
  C9: what \<^verbatim>\<open>start_game\<close> does when the requested name is \<^verbatim>\<open>py/object\<close>, in a channel
  without games. It announces the game under that name and hands the serialiser the
  dictionary with the game under that key. Whenever the text the serialiser wrote
  decodes to a dictionary without that key, the game just announced does not exist for
  the next \<^verbatim>\<open>move_piece\<close>: the game has not been stored under the name the command chose.
\<close>

theorem start_game_reserved_name:
  "start_game codec (spec_engine sample_rules) None 1 2 (Some ''py/object'') None
     = (New_game ''py/object'' 2, set_games codec [(''py/object'', sample_game)])
   \<and> (\<forall>games1. get_games codec (set_games codec [(''py/object'', sample_game)])
                   = Inr (Py_dict games1)
                 \<and> ''py/object'' \<notin> fst ` set games1
        \<longrightarrow> move_piece codec (spec_engine sample_rules) {1, 2} 2
              (set_games codec [(''py/object'', sample_game)]) ''py/object'' ''e4''
            = (Game_does_not_exist, set_games codec [(''py/object'', sample_game)]))"
proof -
  have "start_game codec (spec_engine sample_rules) None 1 2 (Some ''py/object'') None
     = (New_game ''py/object'' 2, set_games codec [(''py/object'', sample_game)])"
    by (simp add: start_game_def get_games_def name_or_default_def
      find_suffix.simps spec_engine_def sample_rules_def new_game_def sample_game_def Let_def)
  moreover have "move_piece codec (spec_engine sample_rules) {1, 2} 2
              (set_games codec [(''py/object'', sample_game)]) ''py/object'' ''e4''
            = (Game_does_not_exist, set_games codec [(''py/object'', sample_game)])"
    if "get_games codec (set_games codec [(''py/object'', sample_game)]) = Inr (Py_dict games1)"
      and "''py/object'' \<notin> fst ` set games1" for games1
    using find_game_absent [OF that] by (simp add: move_piece_def)
  ultimately show ?thesis by blast
qed

theorem start_game_reserved_name_witness:
  "start_game tag_dropping_codec (spec_engine sample_rules) None 1 2 (Some ''py/object'') None
     = (New_game ''py/object'' 2, Some [])
   \<and> get_games tag_dropping_codec (Some ([] :: (string \<times> (nat \<times> nat) list game) list))
       = Inr (Py_dict [])
   \<and> move_piece tag_dropping_codec (spec_engine sample_rules) {1, 2} 2 (Some [])
        ''py/object'' ''e4''
      = (Game_does_not_exist, Some [])"
proof -
  have w: "set_games tag_dropping_codec [(''py/object'', sample_game)] = Some []"
    by (simp add: set_games_def tag_dropping_codec_def)
  have g: "get_games tag_dropping_codec (Some ([] :: (string \<times> (nat \<times> nat) list game) list))
       = Inr (Py_dict [])"
    by (simp add: get_games_def tag_dropping_codec_def)
  from start_game_reserved_name [of tag_dropping_codec] w g show ?thesis by simp
qed

section \<open>Properties of moving, resigning and claiming\<close>

text \<open>
  C3: a call of \<^verbatim>\<open>move_piece\<close> that does not announce a move leaves the channel's store,
  and with it every stored position and history, exactly as it was. This covers a
  notation \<^verbatim>\<open>Game.move_piece\<close> rejects (malformed, illegal or ambiguous: one
  \<^verbatim>\<open>ValueError\<close> for the cog), a caller who is the other player, a caller who is no
  player of the game, a game that does not exist and a command ended by an exception.
\<close>

theorem failed_move_changes_nothing:
  assumes "move_piece codec eng guild_members author store game_name mv = (out, store')"
    and "\<not> is_moved out"
  shows "store' = store"
  using assms
  by (auto simp: move_piece_def is_moved_def Let_def
      split: sum.splits option.splits prod.splits if_splits)

theorem failed_move_changes_nothing_witness:
  "move_piece plain_codec (spec_engine sample_rules) {1, 2} 1 (Some [(''game'', sample_game)])
       ''game'' ''e4''
     = (Not_your_turn, Some [(''game'', sample_game)])
   \<and> \<not> is_moved Not_your_turn
   \<and> move_piece plain_codec (spec_engine sample_rules) {1, 2} 2 (Some [(''game'', sample_game)])
       ''game'' ''Ke9''
     = (Invalid_move ''Ke9'', Some [(''game'', sample_game)])
   \<and> \<not> is_moved (Invalid_move ''Ke9'')"
  using failed_move_changes_nothing [of plain_codec "spec_engine sample_rules" "{1, 2}" 1
      "Some [(''game'', sample_game)]" "''game''" "''e4''" Not_your_turn
      "snd (move_piece plain_codec (spec_engine sample_rules) {1, 2} 1
              (Some [(''game'', sample_game)]) ''game'' ''e4'')"]
  by (simp add: move_piece_def is_moved_def sample_defs)

text \<open>
  C2: for a game stored under the name, \<^verbatim>\<open>claim_draw\<close> ends the game in a draw (the
  games are written back without it) exactly when the reason is one of the two known
  reasons and the game's flag for that reason is set; for every other reason, known with
  an unset flag or unknown, it answers that the draw cannot be claimed and the store is
  unchanged, so the game is still stored and in progress.
\<close>

theorem claim_draw_cases:
  assumes "get_games codec store = Inr (Py_dict games)"
    and "map_of games game_name = Some game"
  shows "claim_draw codec eng store game_name claim_type =
     (if (claim_type = fifty_moves \<and> g_can_claim_fifty_moves eng game)
         \<or> (claim_type = threefold_repetition \<and> g_can_claim_threefold_repetition eng game)
      then (Draw claim_type, set_games codec (AList.delete game_name games))
      else (Unable_to_claim claim_type, store))"
  using find_game_found [OF assms] by (auto simp: claim_draw_def)

theorem claim_draw_cases_witness:
  "get_games plain_codec (Some [(''game'', sample_game)]) = Inr (Py_dict [(''game'', sample_game)])
   \<and> map_of [(''game'', sample_game)] ''game'' = Some sample_game
   \<and> claim_draw plain_codec (spec_engine sample_rules) (Some [(''game'', sample_game)])
        ''game'' ''Fifty moves''
      = (Unable_to_claim ''Fifty moves'', Some [(''game'', sample_game)])
   \<and> claim_draw plain_codec (spec_engine sample_rules) (Some [(''game'', sample_game)])
        ''game'' ''Stalemate''
      = (Unable_to_claim ''Stalemate'', Some [(''game'', sample_game)])
   \<and> claim_draw plain_codec (spec_engine sample_rules)
        (Some [(''game'', sample_game\<lparr>position := (position sample_game)\<lparr>halfmove_clock := 100\<rparr>\<rparr>)])
        ''game'' ''Fifty moves''
      = (Draw ''Fifty moves'', Some [])"
  using claim_draw_cases [of plain_codec "Some [(''game'', sample_game)]"
      "[(''game'', sample_game)]" "''game''" sample_game "spec_engine sample_rules"
      "''Fifty moves''"]
    claim_draw_cases [of plain_codec "Some [(''game'', sample_game)]"
      "[(''game'', sample_game)]" "''game''" sample_game "spec_engine sample_rules"
      "''Stalemate''"]
    claim_draw_cases [of plain_codec
      "Some [(''game'', sample_game\<lparr>position := (position sample_game)\<lparr>halfmove_clock := 100\<rparr>\<rparr>)]"
      "[(''game'', sample_game\<lparr>position := (position sample_game)\<lparr>halfmove_clock := 100\<rparr>\<rparr>)]"
      "''game''" "sample_game\<lparr>position := (position sample_game)\<lparr>halfmove_clock := 100\<rparr>\<rparr>"
      "spec_engine sample_rules" "''Fifty moves''"]
  by (simp add: sample_defs)

text \<open>
  C4, as the code has it: \<^verbatim>\<open>resign\<close> is not unconditional. For a stored game, either of
  its two players, and both players members of the guild: with the argument \<^verbatim>\<open>confirm\<close>,
  or with the yes reaction to the question the command asks, the command announces the
  author's resignation and the other player as the winner, and writes back the games it
  read at its start without the game; with the no reaction it is cancelled and writes
  nothing; with no reaction it waits and writes nothing. Whose turn it is plays no
  part: \<open>g_order\<close> does not occur in the statement.
\<close>

theorem resign_confirmation_gate:
  assumes "get_games codec store = Inr (Py_dict games)"
    and "map_of games game_name = Some game"
    and "author = g_player_white_id eng game \<or> author = g_player_black_id eng game"
    and "g_player_white_id eng game \<in> guild_members"
    and "g_player_black_id eng game \<in> guild_members"
  shows "resign codec eng guild_members author store game_name confirm answer store_now =
     (if confirm \<or> answer = React_yes then
        (Player_resigned author
           (if author = g_player_white_id eng game then g_player_black_id eng game
            else g_player_white_id eng game),
         set_games codec (AList.delete game_name games))
      else if answer = React_no then (Cancelled, store_now)
      else (Awaiting_confirmation, store_now))"
  using find_game_found [OF assms(1,2)] assms(3-5)
  by (cases answer) (auto simp: resign_def get_member_def Let_def)

theorem resign_declined_counterexample:
  "resign plain_codec (spec_engine sample_rules) {1, 2} 1 (Some [(''game'', sample_game)])
       ''game'' False React_no (Some [(''game'', sample_game)])
     = (Cancelled, Some [(''game'', sample_game)])"
  by (simp add: resign_def sample_defs)

theorem resign_confirmation_gate_witness:
  "get_games plain_codec (Some [(''game'', sample_game)]) = Inr (Py_dict [(''game'', sample_game)])
   \<and> map_of [(''game'', sample_game)] ''game'' = Some sample_game
   \<and> g_order (spec_engine sample_rules) sample_game = (White, 2, 1)
   \<and> resign plain_codec (spec_engine sample_rules) {1, 2} 1 (Some [(''game'', sample_game)])
        ''game'' True No_reaction (Some [(''game'', sample_game)])
      = (Player_resigned 1 2, Some [])
   \<and> resign plain_codec (spec_engine sample_rules) {1, 2} 2 (Some [(''game'', sample_game)])
        ''game'' False React_yes (Some [(''game'', sample_game), (''game1'', sample_game)])
      = (Player_resigned 2 1, Some [])
   \<and> resign plain_codec (spec_engine sample_rules) {1, 2} 2 (Some [(''game'', sample_game)])
        ''game'' False React_no (Some [(''game'', sample_game), (''game1'', sample_game)])
      = (Cancelled, Some [(''game'', sample_game), (''game1'', sample_game)])"
  using resign_confirmation_gate [of plain_codec "Some [(''game'', sample_game)]"
      "[(''game'', sample_game)]" "''game''" sample_game 1 "spec_engine sample_rules" "{1, 2}"
      True No_reaction "Some [(''game'', sample_game)]"]
    resign_confirmation_gate [of plain_codec "Some [(''game'', sample_game)]"
      "[(''game'', sample_game)]" "''game''" sample_game 2 "spec_engine sample_rules" "{1, 2}"
      False React_yes "Some [(''game'', sample_game), (''game1'', sample_game)]"]
    resign_confirmation_gate [of plain_codec "Some [(''game'', sample_game)]"
      "[(''game'', sample_game)]" "''game''" sample_game 2 "spec_engine sample_rules" "{1, 2}"
      False React_no "Some [(''game'', sample_game), (''game1'', sample_game)]"]
  by (simp add: sample_defs)

lemma ends_game_deleted:
  assumes "ends_game codec eng guild_members store game_name store'"
  shows "\<exists>games. get_games codec store = Inr (Py_dict games)
           \<and> store' = set_games codec (AList.delete game_name games)"
  using assms
proof cases
  case (by_move author mv value_move n hints)
  then show ?thesis
    by (auto simp: move_piece_def Let_def find_game_Inr dest: find_game_Inl
        split: sum.splits option.splits prod.splits if_splits)
next
  case (by_resignation author confirm answer store_now loser winner)
  then show ?thesis
    by (auto simp: resign_def Let_def find_game_Inr dest: find_game_Inl
        split: sum.splits option.splits if_splits)
next
  case (by_claimed_draw claim_type)
  then show ?thesis
    by (auto simp: claim_draw_def find_game_Inr dest: find_game_Inl
        split: sum.splits if_splits)
next
  case (by_agreed_draw author answer store_now)
  then show ?thesis
    by (auto simp: by_agreement_def find_game_Inr dest: find_game_Inl
        split: sum.splits if_splits reaction.splits)
qed

text \<open>
  C1, as the code has it: a command that ends a game (a move that ends it, a
  resignation, a claimed draw or an agreed draw) writes back the games it read without
  the game. Whenever the channel's store decodes to a dictionary without an entry under
  the name, a \<^verbatim>\<open>move_piece\<close> or \<^verbatim>\<open>claim_draw\<close> under that name, by anybody, is answered with
  "Game does not exist" and changes nothing. This is the answer a name never used gets:
  the cog has no error of its own for a finished game.
\<close>

theorem finished_game_is_gone:
  assumes "ends_game codec eng guild_members store game_name store'"
  shows "(\<exists>games. get_games codec store = Inr (Py_dict games)
            \<and> store' = set_games codec (AList.delete game_name games)
            \<and> game_name \<notin> fst ` set (AList.delete game_name games))
       \<and> (\<forall>later games' members author mv claim_type.
            get_games codec later = Inr (Py_dict games') \<and> game_name \<notin> fst ` set games'
            \<longrightarrow> move_piece codec eng members author later game_name mv
                  = (Game_does_not_exist, later)
              \<and> claim_draw codec eng later game_name claim_type
                  = (Game_does_not_exist, later))"
proof -
  from ends_game_deleted [OF assms] obtain games where
    g: "get_games codec store = Inr (Py_dict games)"
    and s': "store' = set_games codec (AList.delete game_name games)" by blast
  have "game_name \<notin> fst ` set (AList.delete game_name games)"
    by (rule AList.delete_notin_dom)
  with g s' have first: "\<exists>games. get_games codec store = Inr (Py_dict games)
            \<and> store' = set_games codec (AList.delete game_name games)
            \<and> game_name \<notin> fst ` set (AList.delete game_name games)" by blast
  have "move_piece codec eng members author later game_name mv = (Game_does_not_exist, later)
      \<and> claim_draw codec eng later game_name claim_type = (Game_does_not_exist, later)"
    if "get_games codec later = Inr (Py_dict games')" and "game_name \<notin> fst ` set games'"
    for later games' members author mv claim_type
    using find_game_absent [OF that] by (simp add: move_piece_def claim_draw_def)
  with first show ?thesis by blast
qed

theorem finished_game_counterexample:
  "move_piece plain_codec (spec_engine sample_rules) {1, 2} 2 (Some [(''game'', sample_game)])
       ''game'' ''Qxf7#''
     = (Moved True ''Qxf7#'' 1 [], Some [])
   \<and> move_piece plain_codec (spec_engine sample_rules) {1, 2} 1 (Some []) ''game'' ''e4''
     = (Game_does_not_exist, Some [])
   \<and> move_piece plain_codec (spec_engine sample_rules) {1, 2} 1 (Some []) ''never started'' ''e4''
     = (Game_does_not_exist, Some [])
   \<and> claim_draw plain_codec (spec_engine sample_rules) (Some []) ''game'' ''Fifty moves''
     = (Game_does_not_exist, Some [])"
  by (simp add: move_piece_def claim_draw_def sample_defs)

theorem finished_game_is_gone_witness:
  "ends_game plain_codec (spec_engine sample_rules) {1, 2} (Some [(''game'', sample_game)])
      ''game'' (Some [])
   \<and> get_games plain_codec (Some ([] :: (string \<times> (nat \<times> nat) list game) list))
       = Inr (Py_dict [])
   \<and> move_piece plain_codec (spec_engine sample_rules) {1, 2} 1 (Some []) ''game'' ''e4''
       = (Game_does_not_exist, Some [])
   \<and> claim_draw plain_codec (spec_engine sample_rules) (Some []) ''game'' ''Fifty moves''
       = (Game_does_not_exist, Some [])"
proof -
  have "move_piece plain_codec (spec_engine sample_rules) {1, 2} 2
          (Some [(''game'', sample_game)]) ''game'' ''Qxf7#''
        = (Moved True ''Qxf7#'' 1 [], Some [])"
    by (simp add: move_piece_def sample_defs)
  then have e: "ends_game plain_codec (spec_engine sample_rules) {1, 2}
      (Some [(''game'', sample_game)]) ''game'' (Some [])"
    by (rule ends_game.by_move)
  have g: "get_games plain_codec (Some ([] :: (string \<times> (nat \<times> nat) list game) list))
       = Inr (Py_dict [])"
    by (simp add: get_games_def plain_codec_def)
  from finished_game_is_gone [OF e] g
  have "move_piece plain_codec (spec_engine sample_rules) {1, 2} 1 (Some []) ''game'' ''e4''
       = (Game_does_not_exist, Some [])
   \<and> claim_draw plain_codec (spec_engine sample_rules) (Some []) ''game'' ''Fifty moves''
       = (Game_does_not_exist, Some [])"
    by fastforce
  with e g show ?thesis by simp
qed

section \<open>Properties of the session\<close>

lemma game_move_piece_turn:
  assumes "game_move_piece rules g text = Inr (over, summary, g')"
  shows "side_to_move (position g') = other_color (side_to_move (position g))
       \<and> player_white_id g' = player_white_id g \<and> player_black_id g' = player_black_id g
       \<and> total_moves g' = total_moves g + 1"
  using assms
  by (auto simp: game_move_piece_def apply_move_def Let_def split: if_splits sum.splits)

lemma other_color_twice: "other_color (other_color c) = c"
  by (cases c) simp_all

lemma play_turn:
  assumes "play rules g texts = Inr g'"
  shows "side_to_move (position g') =
           (if even (length texts) then side_to_move (position g)
            else other_color (side_to_move (position g)))
       \<and> player_white_id g' = player_white_id g \<and> player_black_id g' = player_black_id g
       \<and> total_moves g' = total_moves g + length texts"
  using assms
proof (induction texts arbitrary: g)
  case Nil
  then show ?case by simp
next
  case (Cons t ts)
  from Cons.prems obtain over summary g1 where
    m: "game_move_piece rules g t = Inr (over, summary, g1)" and p: "play rules g1 ts = Inr g'"
    by (auto split: sum.splits)
  from game_move_piece_turn [OF m] Cons.IH [OF p] show ?case
    by (simp add: other_color_twice)
qed

lemma start_game_stores:
  assumes "start_game codec eng store author other_player game_name game_type
             = (New_game name w, store0)"
  shows "author \<noteq> other_player
       \<and> (\<exists>games0 g0. store0 = set_games codec games0
             \<and> g_new eng author other_player game_type = Some g0
             \<and> map_of games0 name = Some g0)"
  using assms
  by (auto simp: start_game_def Let_def AList.update_conv'
      split: if_splits sum.splits option.splits pyvalue.splits)

lemma move_piece_gate:
  assumes "get_games codec store = Inr (Py_dict games)" and "map_of games game_name = Some g"
    and "player_white_id g \<in> guild_members" and "player_black_id g \<in> guild_members"
    and "player_white_id g \<noteq> player_black_id g"
    and "order g = (turn, acting, waiting)"
  shows "move_piece codec (spec_engine rules) guild_members waiting store game_name mv
           = (Not_your_turn, store)"
    and "game_move_piece rules g mv = Inl e \<Longrightarrow>
         move_piece codec (spec_engine rules) guild_members acting store game_name mv
           = (Invalid_move mv, store)"
    and "game_move_piece rules g mv = Inr (over, summary, g') \<Longrightarrow>
         move_piece codec (spec_engine rules) guild_members acting store game_name mv
           = (Moved over summary (total_moves g') (draw_hints (spec_engine rules) g'),
              set_games codec (if over then AList.delete game_name games
                               else AList.update game_name g' games))"
  using find_game_found [OF assms(1,2)] assms(3-6)
  by (auto simp: move_piece_def spec_engine_def get_member_def order_def Let_def
      split: color.splits)

text \<open>
  C7: the game \<^verbatim>\<open>start_game\<close> hands to the store has the challenged member as white and
  white to move. After every run of successful moves of that game the turn is white's
  when the number of moves is even and black's when it is odd, and the move counter is
  the number of moves. Wherever the game is then found in the store, with both players
  members of the guild, \<^verbatim>\<open>move_piece\<close> tells the player who is not to move that it is not
  their turn and changes nothing, and passes the notation of the player to move to the
  session: a rejected notation changes nothing, an accepted one is announced and written
  back with the game after the move, in which the turn has passed to the other color and
  the other player.
\<close>

theorem white_first_then_alternate:
  assumes "start_game codec (spec_engine rules) store author other_player game_name game_type
             = (New_game name w, store0)"
  shows "\<exists>games0 g0.
           store0 = set_games codec games0 \<and> map_of games0 name = Some g0
         \<and> order g0 = (White, other_player, author)
         \<and> (\<forall>texts g. play rules g0 texts = Inr g \<longrightarrow>
              order g = (if even (length texts) then (White, other_player, author)
                         else (Black, author, other_player))
            \<and> total_moves g = length texts
            \<and> (\<forall>guild_members later games n mv.
                 get_games codec later = Inr (Py_dict games) \<and> map_of games n = Some g
                 \<and> author \<in> guild_members \<and> other_player \<in> guild_members \<longrightarrow>
                 (case order g of (turn, acting, waiting) \<Rightarrow>
                    move_piece codec (spec_engine rules) guild_members waiting later n mv
                      = (Not_your_turn, later)
                  \<and> (case game_move_piece rules g mv of
                       Inl e \<Rightarrow>
                         move_piece codec (spec_engine rules) guild_members acting later n mv
                           = (Invalid_move mv, later)
                     | Inr (over, summary, g') \<Rightarrow>
                         move_piece codec (spec_engine rules) guild_members acting later n mv
                           = (Moved over summary (total_moves g')
                                (draw_hints (spec_engine rules) g'),
                              set_games codec (if over then AList.delete n games
                                               else AList.update n g' games))
                       \<and> order g' = (other_color turn, waiting, acting)))))"
proof -
  from start_game_stores [OF assms] obtain games0 g0 where
    ne: "author \<noteq> other_player"
    and s0: "store0 = set_games codec games0"
    and n: "g_new (spec_engine rules) author other_player game_type = Some g0"
    and s: "map_of games0 name = Some g0" by blast
  from n have g0: "new_game rules author other_player game_type = Inr g0"
    by (simp add: spec_engine_def split: sum.splits)
  then have f: "side_to_move (position g0) = White" "player_white_id g0 = other_player"
    "player_black_id g0 = author" "total_moves g0 = 0"
    by (auto simp: new_game_def split: option.splits)
  then have o: "order g0 = (White, other_player, author)" by (simp add: order_def)
  have run: "order g = (if even (length texts) then (White, other_player, author)
                   else (Black, author, other_player)) \<and> total_moves g = length texts
           \<and> player_white_id g = other_player \<and> player_black_id g = author"
    if "play rules g0 texts = Inr g" for texts g
    using play_turn [OF that] f by (simp add: order_def)
  have gate: "(case order g of (turn, acting, waiting) \<Rightarrow>
                    move_piece codec (spec_engine rules) guild_members waiting later n mv
                      = (Not_your_turn, later)
                  \<and> (case game_move_piece rules g mv of
                       Inl e \<Rightarrow>
                         move_piece codec (spec_engine rules) guild_members acting later n mv
                           = (Invalid_move mv, later)
                     | Inr (over, summary, g') \<Rightarrow>
                         move_piece codec (spec_engine rules) guild_members acting later n mv
                           = (Moved over summary (total_moves g')
                                (draw_hints (spec_engine rules) g'),
                              set_games codec (if over then AList.delete n games
                                               else AList.update n g' games))
                       \<and> order g' = (other_color turn, waiting, acting)))"
    if p: "play rules g0 texts = Inr g"
      and r: "get_games codec later = Inr (Py_dict games)" "map_of games n = Some g"
      and m: "author \<in> guild_members" "other_player \<in> guild_members"
    for texts g guild_members later games n mv
  proof -
    obtain turn acting waiting where og: "order g = (turn, acting, waiting)"
      by (cases "order g") auto
    from run [OF p] have ids: "player_white_id g = other_player" "player_black_id g = author"
      by simp_all
    with m ne have pre: "player_white_id g \<in> guild_members"
      "player_black_id g \<in> guild_members" "player_white_id g \<noteq> player_black_id g"
      by auto
    note gt = move_piece_gate [OF r pre og]
    have flip: "order g' = (other_color turn, waiting, acting)"
      if "game_move_piece rules g mv = Inr (over, summary, g')" for over summary g'
      using game_move_piece_turn [OF that] og
      by (auto simp: order_def split: color.splits)
    show ?thesis
    proof (cases "game_move_piece rules g mv")
      case (Inl e)
      with og gt(1) gt(2) [OF Inl] show ?thesis by simp
    next
      case (Inr r)
      obtain over summary g' where r: "r = (over, summary, g')" by (cases r) auto
      with Inr have i: "game_move_piece rules g mv = Inr (over, summary, g')" by simp
      from og gt(1) gt(3) [OF i] flip [OF i] i show ?thesis by simp
    qed
  qed
  have all: "\<forall>texts g. play rules g0 texts = Inr g \<longrightarrow>
              order g = (if even (length texts) then (White, other_player, author)
                         else (Black, author, other_player))
            \<and> total_moves g = length texts
            \<and> (\<forall>guild_members later games n mv.
                 get_games codec later = Inr (Py_dict games) \<and> map_of games n = Some g
                 \<and> author \<in> guild_members \<and> other_player \<in> guild_members \<longrightarrow>
                 (case order g of (turn, acting, waiting) \<Rightarrow>
                    move_piece codec (spec_engine rules) guild_members waiting later n mv
                      = (Not_your_turn, later)
                  \<and> (case game_move_piece rules g mv of
                       Inl e \<Rightarrow>
                         move_piece codec (spec_engine rules) guild_members acting later n mv
                           = (Invalid_move mv, later)
                     | Inr (over, summary, g') \<Rightarrow>
                         move_piece codec (spec_engine rules) guild_members acting later n mv
                           = (Moved over summary (total_moves g')
                                (draw_hints (spec_engine rules) g'),
                              set_games codec (if over then AList.delete n games
                                               else AList.update n g' games))
                       \<and> order g' = (other_color turn, waiting, acting))))"
  proof (intro allI impI conjI)
    fix texts g assume p: "play rules g0 texts = Inr g"
    from run [OF p] show "order g = (if even (length texts) then (White, other_player, author)
                         else (Black, author, other_player))" by simp
    from run [OF p] show "total_moves g = length texts" by simp
    fix guild_members later games n mv
    assume a: "get_games codec later = Inr (Py_dict games) \<and> map_of games n = Some g
                 \<and> author \<in> guild_members \<and> other_player \<in> guild_members"
    from a have r: "get_games codec later = Inr (Py_dict games)" "map_of games n = Some g"
      and m: "author \<in> guild_members" "other_player \<in> guild_members" by simp_all
    show "(case order g of (turn, acting, waiting) \<Rightarrow>
                    move_piece codec (spec_engine rules) guild_members waiting later n mv
                      = (Not_your_turn, later)
                  \<and> (case game_move_piece rules g mv of
                       Inl e \<Rightarrow>
                         move_piece codec (spec_engine rules) guild_members acting later n mv
                           = (Invalid_move mv, later)
                     | Inr (over, summary, g') \<Rightarrow>
                         move_piece codec (spec_engine rules) guild_members acting later n mv
                           = (Moved over summary (total_moves g')
                                (draw_hints (spec_engine rules) g'),
                              set_games codec (if over then AList.delete n games
                                               else AList.update n g' games))
                       \<and> order g' = (other_color turn, waiting, acting)))"
      by (rule gate [OF p r m])
  qed
  show ?thesis
    by (intro exI [of _ games0] exI [of _ g0] conjI s0 s o all)
qed

theorem white_first_then_alternate_witness:
  "start_game plain_codec (spec_engine sample_rules) None 1 2 None None
     = (New_game ''game'' 2, Some [(''game'', sample_game)])
   \<and> order sample_game = (White, 2, 1)
   \<and> move_piece plain_codec (spec_engine sample_rules) {1, 2} 1
        (Some [(''game'', sample_game)]) ''game'' ''e4''
      = (Not_your_turn, Some [(''game'', sample_game)])
   \<and> (\<exists>g1. move_piece plain_codec (spec_engine sample_rules) {1, 2} 2
               (Some [(''game'', sample_game)]) ''game'' ''e4''
             = (Moved False ''e4'' 1 [], Some [(''game'', g1)])
           \<and> order g1 = (Black, 1, 2)
           \<and> move_piece plain_codec (spec_engine sample_rules) {1, 2} 2
               (Some [(''game'', g1)]) ''game'' ''Nf3''
             = (Not_your_turn, Some [(''game'', g1)]))"
proof -
  have s: "start_game plain_codec (spec_engine sample_rules) None 1 2 None None
     = (New_game ''game'' 2, Some [(''game'', sample_game)])"
    by (simp add: start_game_def name_or_default_def find_suffix.simps sample_defs)
  from white_first_then_alternate [OF s] obtain games0 g0 where
    a: "Some [(''game'', sample_game)] = set_games plain_codec games0"
    and b: "map_of games0 ''game'' = Some g0"
    and c: "order g0 = (White, 2, 1)" by blast
  from a have "games0 = [(''game'', sample_game)]"
    by (simp add: set_games_def plain_codec_def)
  with b have "g0 = sample_game" by simp
  with c have o: "order sample_game = (White, 2, 1)" by simp
  show ?thesis using s o by (simp add: move_piece_def sample_defs)
qed

text \<open>
  C8: the fifty-moves flag of a session is set exactly when the half-move clock is at
  least 100. A capture or a pawn move resets the clock and clears the flag; any other
  move adds one to the clock, keeps a set flag set, and sets an unset flag exactly when
  the clock reaches 100.
\<close>

theorem fifty_moves_flag:
  assumes "game_move_piece rules g text = Inr (over, summary, g')"
    and "r_parse rules (position g) text = Inr m"
  shows "(can_claim_fifty_moves g' \<longleftrightarrow> 100 \<le> halfmove_clock (position g'))
       \<and> (if resets_clock m
          then halfmove_clock (position g') = 0 \<and> \<not> can_claim_fifty_moves g'
          else halfmove_clock (position g') = halfmove_clock (position g) + 1
             \<and> (can_claim_fifty_moves g \<longrightarrow> can_claim_fifty_moves g')
             \<and> (\<not> can_claim_fifty_moves g \<and> can_claim_fifty_moves g'
                  \<longleftrightarrow> halfmove_clock (position g') = 100))"
  using assms
  by (auto simp: game_move_piece_def apply_move_def can_claim_fifty_moves_def Let_def
      split: if_splits)

theorem fifty_moves_flag_witness:
  "\<not> can_claim_fifty_moves (sample_game\<lparr>position := (position sample_game)\<lparr>halfmove_clock := 99\<rparr>\<rparr>)
   \<and> (\<exists>g'. game_move_piece sample_rules
                (sample_game\<lparr>position := (position sample_game)\<lparr>halfmove_clock := 99\<rparr>\<rparr>) ''Nf3''
              = Inr (False, ''Nf3'', g')
            \<and> halfmove_clock (position g') = 100 \<and> can_claim_fifty_moves g')
   \<and> can_claim_fifty_moves (sample_game\<lparr>position := (position sample_game)\<lparr>halfmove_clock := 100\<rparr>\<rparr>)
   \<and> (\<exists>g'. game_move_piece sample_rules
                (sample_game\<lparr>position := (position sample_game)\<lparr>halfmove_clock := 100\<rparr>\<rparr>) ''e4''
              = Inr (False, ''e4'', g')
            \<and> halfmove_clock (position g') = 0 \<and> \<not> can_claim_fifty_moves g')"
  using fifty_moves_flag [of sample_rules
      "sample_game\<lparr>position := (position sample_game)\<lparr>halfmove_clock := 99\<rparr>\<rparr>" "''Nf3''"
      False "''Nf3''"
      "snd (snd (projr (game_move_piece sample_rules
         (sample_game\<lparr>position := (position sample_game)\<lparr>halfmove_clock := 99\<rparr>\<rparr>) ''Nf3'')))"
      "projr (r_parse sample_rules
         (position (sample_game\<lparr>position := (position sample_game)\<lparr>halfmove_clock := 99\<rparr>\<rparr>)) ''Nf3'')"]
    fifty_moves_flag [of sample_rules
      "sample_game\<lparr>position := (position sample_game)\<lparr>halfmove_clock := 100\<rparr>\<rparr>" "''e4''"
      False "''e4''"
      "snd (snd (projr (game_move_piece sample_rules
         (sample_game\<lparr>position := (position sample_game)\<lparr>halfmove_clock := 100\<rparr>\<rparr>) ''e4'')))"
      "projr (r_parse sample_rules
         (position (sample_game\<lparr>position := (position sample_game)\<lparr>halfmove_clock := 100\<rparr>\<rparr>)) ''e4'')"]
  by (simp add: sample_defs)

end
